theory Spec2Isabelle
  imports Main "HOL-Library.Word"
begin

section \<open>Data model of store.ts\<close>

text \<open>
  The interfaces of store.ts become records. A JavaScript \<open>number\<close> that holds a block
  height or a nonce is modelled as an \<open>int\<close>: the values read from the \<open>int4\<close> columns
  are integers, and a caller's non-integer height behaves like an integer outside the
  \<open>int4\<close> range (the backend refuses it when it is bound to an \<open>int4\<close> column).
  The field \<open>top\<close> of \<open>DatabaseState\<close> is named \<open>top_blocks\<close>, since \<open>top\<close> is a
  constant of HOL.
\<close>

datatype IsolationLevel = ReadUncommitted | ReadCommitted | RepeatableRead | Serializable

record DrizzleDatabaseOptions =
  opt_isolationLevel :: "IsolationLevel option"
  opt_stateSchema :: "string option"

record HashAndHeight =
  height :: int
  hash :: string

record FinalTxInfo =
  prevHead :: HashAndHeight
  nextHead :: HashAndHeight
  isOnTop :: bool

record HotTxInfo =
  finalizedHead :: HashAndHeight
  baseHead :: HashAndHeight
  newBlocks :: "HashAndHeight list"

record DatabaseState = HashAndHeight +
  top_blocks :: "HashAndHeight list"
  nonce :: int

definition RACE_MSG :: string where
  "RACE_MSG =
     ''status table was updated by foreign process, make sure no other processor is running''"

text \<open>
  Every \<open>throw\<close> is a value. \<open>AssertionError\<close> carries the message given to \<open>assert\<close>,
  if any; \<open>BackendError\<close> is an error raised by the database for a statement;
  \<open>CallbackError\<close> is an error of the caller's callback; \<open>Retrying\<close> is the error that
  the function handed out by promise-retry throws (code \<open>EPROMISERETRY\<close>), wrapping the
  error it was called with.
\<close>

datatype error =
    AssertionError "string option"
  | BackendError string
  | CallbackError string
  | Retrying error

definition js_assert :: "bool \<Rightarrow> string option \<Rightarrow> error + unit" where
  "js_assert c msg = (if c then Inr () else Inl (AssertionError msg))"

definition and_then :: "error + 'a \<Rightarrow> ('a \<Rightarrow> error + 'b) \<Rightarrow> error + 'b" where
  "and_then m f = (case m of Inl e \<Rightarrow> Inl e | Inr x \<Rightarrow> f x)"

record DrizzleDatabase =
  statusSchema :: string
  isolationLevel :: "IsolationLevel option"

definition new_DrizzleDatabase :: "DrizzleDatabaseOptions option \<Rightarrow> DrizzleDatabase" where
  "new_DrizzleDatabase options =
     \<lparr> statusSchema =
         (case options of None \<Rightarrow> ''squid_processor''
          | Some opts \<Rightarrow>
              (case opt_stateSchema opts of None \<Rightarrow> ''squid_processor'' | Some s \<Rightarrow> s)),
       isolationLevel =
         (case options of None \<Rightarrow> None | Some opts \<Rightarrow> opt_isolationLevel opts) \<rparr>"

section \<open>The persisted tables\<close>

text \<open>
  The database holds the namespace named by \<open>stateSchema\<close> and the caller's own tables
  (\<open>domain\<close>, of any type). The namespace may be absent, and so may each of its three
  tables, as before the first \<open>connect\<close>. An \<open>int4\<close> column holds a 32-bit word, read
  as a signed number. The columns \<open>hash\<close> and \<open>nonce\<close> of \<open>status\<close> are filled by every
  statement of store.ts that writes a row, so a row of the model always has them.
\<close>

type_synonym int4 = "32 word"

record status_row =
  row_id :: int4
  row_height :: int4
  row_hash :: string
  row_nonce :: int4

record hot_block_row =
  hb_height :: int4
  hb_hash :: string

record hot_change_log_row =
  cl_block_height :: int4
  cl_index :: int4
  cl_change :: string

record namespace =
  status :: "status_row list option"
  hot_block :: "hot_block_row list option"
  hot_change_log :: "hot_change_log_row list option"

record 'd db =
  ns :: "namespace option"
  domain :: 'd

definition int4_ok :: "int \<Rightarrow> bool" where
  "int4_ok n = (- (2 ^ 31) \<le> n \<and> n < 2 ^ 31)"

definition no_relation :: error where
  "no_relation = BackendError ''relation does not exist''"

subsection \<open>The statements of connect\<close>

text \<open>\<open>CREATE SCHEMA IF NOT EXISTS\<close>: a new namespace has no table.\<close>

definition create_schema :: "'d db \<Rightarrow> 'd db" where
  "create_schema tx =
     (case ns tx of
        None \<Rightarrow> tx\<lparr>ns := Some \<lparr>status = None, hot_block = None, hot_change_log = None\<rparr>\<rparr>
      | Some n \<Rightarrow> tx)"

text \<open>\<open>CREATE TABLE IF NOT EXISTS\<close> for each of the three tables: an existing table is kept.\<close>

definition create_status :: "'d db \<Rightarrow> error + 'd db" where
  "create_status tx =
     (case ns tx of
        None \<Rightarrow> Inl (BackendError ''schema does not exist'')
      | Some n \<Rightarrow>
          (case status n of
             None \<Rightarrow> Inr (tx\<lparr>ns := Some (n\<lparr>status := Some []\<rparr>)\<rparr>)
           | Some rows \<Rightarrow> Inr tx))"

definition create_hot_block :: "'d db \<Rightarrow> error + 'd db" where
  "create_hot_block tx =
     (case ns tx of
        None \<Rightarrow> Inl (BackendError ''schema does not exist'')
      | Some n \<Rightarrow>
          (case hot_block n of
             None \<Rightarrow> Inr (tx\<lparr>ns := Some (n\<lparr>hot_block := Some []\<rparr>)\<rparr>)
           | Some rows \<Rightarrow> Inr tx))"

text \<open>\<open>hot_change_log\<close> references \<open>hot_block\<close>, which has to exist when it is created.\<close>

definition create_hot_change_log :: "'d db \<Rightarrow> error + 'd db" where
  "create_hot_change_log tx =
     (case ns tx of
        None \<Rightarrow> Inl (BackendError ''schema does not exist'')
      | Some n \<Rightarrow>
          (case hot_change_log n of
             Some rows \<Rightarrow> Inr tx
           | None \<Rightarrow>
               (case hot_block n of
                  None \<Rightarrow> Inl no_relation
                | Some hs \<Rightarrow> Inr (tx\<lparr>ns := Some (n\<lparr>hot_change_log := Some []\<rparr>)\<rparr>))))"

text \<open>
  \<open>select height, hash, nonce from status where id = 0\<close>: the rows with id 0, in table
  order, as (height, hash, nonce).
\<close>

definition select_status :: "'d db \<Rightarrow> error + (int \<times> string \<times> int) list" where
  "select_status tx =
     (case ns tx of
        None \<Rightarrow> Inl no_relation
      | Some n \<Rightarrow>
          (case status n of
             None \<Rightarrow> Inl no_relation
           | Some rows \<Rightarrow>
               Inr (map (\<lambda>r. (sint (row_height r), row_hash r, sint (row_nonce r)))
                      (filter (\<lambda>r. row_id r = 0) rows))))"

text \<open>\<open>select height, hash from hot_block order by height\<close>.\<close>

definition select_hot_block :: "'d db \<Rightarrow> error + HashAndHeight list" where
  "select_hot_block tx =
     (case ns tx of
        None \<Rightarrow> Inl no_relation
      | Some n \<Rightarrow>
          (case hot_block n of
             None \<Rightarrow> Inl no_relation
           | Some rows \<Rightarrow>
               Inr (map (\<lambda>r. \<lparr>height = sint (hb_height r), hash = hb_hash r\<rparr>)
                      (sort_key (\<lambda>r. sint (hb_height r)) rows))))"

text \<open>
  \<open>INSERT INTO status (id, height, hash) VALUES (0, -1, '0x')\<close>: the nonce takes the
  column's default 0; the primary key \<open>id\<close> refuses a second row with id 0.
\<close>

definition insert_status :: "'d db \<Rightarrow> error + 'd db" where
  "insert_status tx =
     (case ns tx of
        None \<Rightarrow> Inl no_relation
      | Some n \<Rightarrow>
          (case status n of
             None \<Rightarrow> Inl no_relation
           | Some rows \<Rightarrow>
               (if filter (\<lambda>r. row_id r = 0) rows = []
                then Inr (tx\<lparr>ns := Some (n\<lparr>status := Some (rows @
                       [\<lparr>row_id = 0, row_height = - 1, row_hash = ''0x'', row_nonce = 0\<rparr>])\<rparr>)\<rparr>)
                else Inl (BackendError ''duplicate key value violates unique constraint''))))"

subsection \<open>The state loader\<close>

definition isSafeInteger :: "int \<Rightarrow> bool" where
  "isSafeInteger n = (- (2 ^ 53 - 1) \<le> n \<and> n \<le> 2 ^ 53 - 1)"

text \<open>
  The loop of \<open>assertChainContinuity\<close>; its variable \<open>prev\<close> is only read at \<open>height\<close>,
  so the loop carries that height.
\<close>

fun continuity_loop :: "int \<Rightarrow> HashAndHeight list \<Rightarrow> error + unit" where
  "continuity_loop prev [] = Inr ()"
| "continuity_loop prev (b # bs) =
     (if height b = prev + 1 then continuity_loop (height b) bs
      else Inl (AssertionError (Some ''blocks must form a continuous chain'')))"

definition assertChainContinuity ::
  "'a HashAndHeight_scheme \<Rightarrow> HashAndHeight list \<Rightarrow> error + unit" where
  "assertChainContinuity base chain = continuity_loop (height base) chain"

definition assertStateInvariants :: "DatabaseState \<Rightarrow> error + DatabaseState" where
  "assertStateInvariants state =
     and_then (js_assert (isSafeInteger (height state)) None) (\<lambda>_.
     and_then (assertChainContinuity state (top_blocks state)) (\<lambda>_.
     Inr state))"

text \<open>The object \<open>{...status[0], top}\<close>.\<close>

definition mk_state :: "int \<times> string \<times> int \<Rightarrow> HashAndHeight list \<Rightarrow> DatabaseState" where
  "mk_state s tp =
     (case s of (h, hs, n) \<Rightarrow> \<lparr>height = h, hash = hs, top_blocks = tp, nonce = n\<rparr>)"

definition getState :: "'d db \<Rightarrow> error + DatabaseState" where
  "getState tx =
     and_then (select_status tx) (\<lambda>status.
     and_then (js_assert (length status = 1) None) (\<lambda>_.
     and_then (select_hot_block tx) (\<lambda>tp.
     assertStateInvariants (mk_state (hd status) tp))))"

section \<open>Transactions\<close>

text \<open>
  \<open>db.transaction(body, config)\<close> runs the body on the database; when the body throws,
  the transaction is rolled back and the error is rethrown; otherwise the body's writes
  are committed. The isolation level does not change what one process alone observes.
\<close>

definition transaction ::
  "('d db \<Rightarrow> error + 'a \<times> 'd db) \<Rightarrow> IsolationLevel option \<Rightarrow> 'd db \<Rightarrow> (error + 'a) \<times> 'd db" where
  "transaction body config d =
     (case body d of
        Inl e \<Rightarrow> (Inl e, d)
      | Inr (r, tx') \<Rightarrow> (Inr r, tx'))"

subsection \<open>connect\<close>

definition connect_tx :: "'d db \<Rightarrow> error + DatabaseState \<times> 'd db" where
  "connect_tx tx0 =
     (let tx1 = create_schema tx0 in
      and_then (create_status tx1) (\<lambda>tx2.
      and_then (create_hot_block tx2) (\<lambda>tx3.
      and_then (create_hot_change_log tx3) (\<lambda>tx4.
      and_then (select_status tx4) (\<lambda>status.
      and_then (if length status = 0
                then and_then (insert_status tx4) (\<lambda>tx5. Inr (status @ [(- 1, ''0x'', 0)], tx5))
                else Inr (status, tx4)) (\<lambda>(status', tx5).
      and_then (select_hot_block tx5) (\<lambda>tp.
      and_then (assertStateInvariants (mk_state (hd status') tp)) (\<lambda>state.
      Inr (state, tx5)))))))))"

definition connect :: "DrizzleDatabase \<Rightarrow> 'd db \<Rightarrow> (error + DatabaseState) \<times> 'd db" where
  "connect this d = transaction connect_tx None d"

subsection \<open>updateStatus\<close>

text \<open>
  The statement of \<open>updateStatus\<close>,
  \<open>UPDATE status SET height = $1, hash = $2, nonce = nonce + 1 WHERE id = 0 AND nonce = $3\<close>,
  with the number of rows it changes. The two numeric parameters are bound to \<open>int4\<close>
  columns, so a value outside \<open>int4\<close> is refused; \<open>nonce + 1\<close> is refused when it
  leaves \<open>int4\<close> on a row that matches.
\<close>

definition update_matches :: "int \<Rightarrow> status_row \<Rightarrow> bool" where
  "update_matches n r = (row_id r = 0 \<and> sint (row_nonce r) = n)"

definition update_row :: "HashAndHeight \<Rightarrow> status_row \<Rightarrow> status_row" where
  "update_row next r =
     r\<lparr>row_height := word_of_int (height next), row_hash := hash next,
       row_nonce := row_nonce r + 1\<rparr>"

definition update_status :: "'d db \<Rightarrow> int \<Rightarrow> HashAndHeight \<Rightarrow> error + nat \<times> 'd db" where
  "update_status tx n next =
     (case ns tx of
        None \<Rightarrow> Inl no_relation
      | Some nsp \<Rightarrow>
          (case status nsp of
             None \<Rightarrow> Inl no_relation
           | Some rows \<Rightarrow>
               (if int4_ok (height next) \<and> int4_ok n
                then (if filter (\<lambda>r. update_matches n r \<and> sint (row_nonce r) = 2 ^ 31 - 1) rows = []
                      then Inr (length (filter (update_matches n) rows),
                             tx\<lparr>ns := Some (nsp\<lparr>status := Some
                               (map (\<lambda>r. if update_matches n r then update_row next r else r) rows)\<rparr>)\<rparr>)
                      else Inl (BackendError ''integer out of range''))
                else Inl (BackendError ''value out of range for type integer''))))"

text \<open>\<open>updateStatus\<close> awaits the statement and drops its result.\<close>

definition updateStatus :: "'d db \<Rightarrow> int \<Rightarrow> HashAndHeight \<Rightarrow> error + 'd db" where
  "updateStatus tx n next = and_then (update_status tx n next) (\<lambda>(rowCount, tx'). Inr tx')"

subsection \<open>promise-retry\<close>

text \<open>
  \<open>promiseRetry(fn)\<close> calls \<open>fn(retry, number)\<close>, with \<open>number\<close> counting the attempts
  from 1. Calling \<open>retry(err)\<close> throws the \<open>Retrying\<close> error around \<open>err\<close>. When \<open>fn\<close>
  fails with a \<open>Retrying\<close> error and retries are left (10 by default), \<open>fn\<close> is called
  again; when none is left, the wrapped error is the result. Any other error of \<open>fn\<close> is
  the result at once, and so is its success.
\<close>

definition retry_fn :: "error \<Rightarrow> error" where
  "retry_fn err = Retrying (case err of Retrying e \<Rightarrow> e | _ \<Rightarrow> err)"

fun promiseRetry_from ::
  "nat \<Rightarrow> nat \<Rightarrow> ((error \<Rightarrow> error) \<Rightarrow> nat \<Rightarrow> 's \<Rightarrow> (error + 'a) \<times> 's) \<Rightarrow> 's \<Rightarrow> (error + 'a) \<times> 's" where
  "promiseRetry_from 0 number fn s =
     (case fn retry_fn number s of
        (Inl (Retrying err), s') \<Rightarrow> (Inl err, s')
      | (Inl e, s') \<Rightarrow> (Inl e, s')
      | (Inr r, s') \<Rightarrow> (Inr r, s'))"
| "promiseRetry_from (Suc left) number fn s =
     (case fn retry_fn number s of
        (Inl (Retrying err), s') \<Rightarrow> promiseRetry_from left (Suc number) fn s'
      | (Inl e, s') \<Rightarrow> (Inl e, s')
      | (Inr r, s') \<Rightarrow> (Inr r, s'))"

definition promiseRetry ::
  "((error \<Rightarrow> error) \<Rightarrow> nat \<Rightarrow> 's \<Rightarrow> (error + 'a) \<times> 's) \<Rightarrow> 's \<Rightarrow> (error + 'a) \<times> 's" where
  "promiseRetry fn s = promiseRetry_from 10 1 fn s"

text \<open>The number of times \<open>promiseRetry\<close> calls \<open>fn\<close>.\<close>

fun attempts_from ::
  "nat \<Rightarrow> nat \<Rightarrow> ((error \<Rightarrow> error) \<Rightarrow> nat \<Rightarrow> 's \<Rightarrow> (error + 'a) \<times> 's) \<Rightarrow> 's \<Rightarrow> nat" where
  "attempts_from 0 number fn s = 1"
| "attempts_from (Suc left) number fn s =
     (case fn retry_fn number s of
        (Inl (Retrying err), s') \<Rightarrow> Suc (attempts_from left (Suc number) fn s')
      | (Inl e, s') \<Rightarrow> 1
      | (Inr r, s') \<Rightarrow> 1)"

definition attempts ::
  "((error \<Rightarrow> error) \<Rightarrow> nat \<Rightarrow> 's \<Rightarrow> (error + 'a) \<times> 's) \<Rightarrow> 's \<Rightarrow> nat" where
  "attempts fn s = attempts_from 10 1 fn s"

subsection \<open>transact\<close>

text \<open>
  The callback \<open>cb\<close> receives the transaction and may run any statement on it, so it is
  a function from the database the transaction sees to the database after its statements,
  or an error. At the default isolation level a statement sees what other processes
  have committed before it starts; rows that change between the load and the update
  are, for the update, rows that changed while \<open>cb\<close> ran.
\<close>

definition transact_tx ::
  "FinalTxInfo \<Rightarrow> ('d db \<Rightarrow> error + 'd db) \<Rightarrow> 'd db \<Rightarrow> error + unit \<times> 'd db" where
  "transact_tx info cb tx =
     and_then (getState tx) (\<lambda>state.
     let prev = prevHead info; next = nextHead info in
     and_then (js_assert (hash state = hash (prevHead info)) (Some RACE_MSG)) (\<lambda>_.
     and_then (js_assert (height state = height prev) None) (\<lambda>_.
     and_then (js_assert (height prev < height next) None) (\<lambda>_.
     and_then (js_assert (hash prev \<noteq> hash next) None) (\<lambda>_.
     and_then (cb tx) (\<lambda>tx1.
     and_then (updateStatus tx1 (nonce state) next) (\<lambda>tx2.
     Inr ((), tx2))))))))"

text \<open>The function given to \<open>promiseRetry\<close>; it uses neither of its two arguments.\<close>

definition transact_attempt ::
  "DrizzleDatabase \<Rightarrow> FinalTxInfo \<Rightarrow> ('d db \<Rightarrow> error + 'd db) \<Rightarrow>
     (error \<Rightarrow> error) \<Rightarrow> nat \<Rightarrow> 'd db \<Rightarrow> (error + unit) \<times> 'd db" where
  "transact_attempt this info cb retry number d =
     transaction (transact_tx info cb) (isolationLevel this) d"

definition transact ::
  "DrizzleDatabase \<Rightarrow> FinalTxInfo \<Rightarrow> ('d db \<Rightarrow> error + 'd db) \<Rightarrow> 'd db \<Rightarrow> (error + unit) \<times> 'd db" where
  "transact this info cb d = promiseRetry (transact_attempt this info cb) d"

section \<open>The SQL text of the statements\<close>

text \<open>
  A drizzle \<open>sql\<close> template is a list of chunks: the literal pieces of the template and
  the result of \<open>sql.raw\<close> are text, every other interpolated value is a bound
  parameter, rendered for Postgres as \<open>$1\<close>, \<open>$2\<close>, ... A template interpolated into
  another one contributes its own chunks. Runs of white space in the templates of
  store.ts are written as one space.
\<close>

datatype sql_value = SqlInt int | SqlText string

datatype chunk = StringChunk string | Param sql_value

type_synonym sql = "chunk list"

definition sql_raw :: "string \<Rightarrow> sql" where
  "sql_raw s = [StringChunk s]"

fun decimal :: "nat \<Rightarrow> string" where
  "decimal n =
     (if n < 10 then [''0123456789'' ! n]
      else decimal (n div 10) @ [''0123456789'' ! (n mod 10)])"

fun toQuery_from :: "nat \<Rightarrow> sql \<Rightarrow> string \<times> sql_value list" where
  "toQuery_from n [] = ([], [])"
| "toQuery_from n (StringChunk s # cs) =
     (case toQuery_from n cs of (rest, params) \<Rightarrow> (s @ rest, params))"
| "toQuery_from n (Param v # cs) =
     (case toQuery_from (n + 1) cs of
        (rest, params) \<Rightarrow> (''$'' @ decimal (n + 1) @ rest, v # params))"

definition toQuery :: "sql \<Rightarrow> string \<times> sql_value list" where
  "toQuery q = toQuery_from 0 q"

text \<open>The query builder: \<open>select(cols).from(tbl).where(cond).orderBy(key)\<close>.\<close>

fun comma_join :: "sql list \<Rightarrow> sql" where
  "comma_join [] = []"
| "comma_join [q] = q"
| "comma_join (q # qs) = q @ [StringChunk '', ''] @ comma_join qs"

definition select_from :: "sql list \<Rightarrow> sql \<Rightarrow> sql option \<Rightarrow> sql option \<Rightarrow> sql" where
  "select_from cols tbl cond key =
     [StringChunk ''select ''] @ comma_join cols @ [StringChunk '' from ''] @ tbl @
     (case cond of None \<Rightarrow> [] | Some c \<Rightarrow> [StringChunk '' where ''] @ c) @
     (case key of None \<Rightarrow> [] | Some k \<Rightarrow> [StringChunk '' order by ''] @ k)"

definition select_status_sql :: "sql \<Rightarrow> sql" where
  "select_status_sql schema =
     select_from [[StringChunk ''height''], [StringChunk ''hash''], [StringChunk ''nonce'']]
       (schema @ [StringChunk ''.status'']) (Some [StringChunk ''id = 0'']) None"

definition select_hot_block_sql :: "sql \<Rightarrow> sql" where
  "select_hot_block_sql schema =
     select_from [[StringChunk ''height''], [StringChunk ''hash'']]
       (schema @ [StringChunk ''.hot_block'']) None (Some [StringChunk ''height''])"

text \<open>
  The statements of \<open>connect\<close> in the order of the source; the \<open>INSERT\<close> is only
  executed when the select before it returns no row.
\<close>

definition connect_sql :: "DrizzleDatabase \<Rightarrow> sql list" where
  "connect_sql this =
     (let schema = sql_raw (statusSchema this) in
      [ [StringChunk ''CREATE SCHEMA IF NOT EXISTS ''] @ schema,
        [StringChunk ''CREATE TABLE IF NOT EXISTS ''] @ schema @
          [StringChunk ''.status ( id int4 primary key, height int4 not null, hash text DEFAULT '0x', nonce int4 DEFAULT 0 )''],
        [StringChunk ''CREATE TABLE IF NOT EXISTS ''] @ schema @
          [StringChunk ''.hot_block (height int4 primary key, hash text not null)''],
        [StringChunk ''CREATE TABLE IF NOT EXISTS ''] @ schema @
          [StringChunk ''.hot_change_log ( block_height int4 not null references ''] @ schema @
          [StringChunk ''.hot_block on delete cascade, index int4 not null, change jsonb not null, PRIMARY KEY (block_height, index) )''],
        select_status_sql schema,
        [StringChunk ''INSERT INTO ''] @ schema @
          [StringChunk ''.status (id, height, hash) VALUES (0, -1, '0x')''],
        select_hot_block_sql schema ])"

definition getState_sql :: "DrizzleDatabase \<Rightarrow> sql list" where
  "getState_sql this =
     (let schema = sql_raw (statusSchema this) in
      [ select_status_sql schema, select_hot_block_sql schema ])"

definition updateStatus_sql :: "DrizzleDatabase \<Rightarrow> int \<Rightarrow> HashAndHeight \<Rightarrow> sql" where
  "updateStatus_sql this n next =
     (let schema = sql_raw (statusSchema this) in
      [StringChunk ''UPDATE ''] @ schema @ [StringChunk ''.status SET height = ''] @
      [Param (SqlInt (height next))] @ [StringChunk '', hash = ''] @
      [Param (SqlText (hash next))] @
      [StringChunk '', nonce = nonce + 1 WHERE id = 0 AND nonce = ''] @
      [Param (SqlInt n)])"

section \<open>The reorg-reconciliation protocol\<close>

text \<open>
  store.ts has no reconciliation: \<open>transactHot2\<close>, \<open>insertHotBlock\<close> and \<open>deleteHotBlocks\<close>
  are commented out, \<open>rollbackBlock\<close> has no body, and \<open>supportsHotBlocks\<close> is \<open>false\<close>.
  Every definition of this section is modelled from the specification: the protocol
  \<open>reconcile\<close> of section 4.4, the statements of section 4.1 and the retry wrapper of
  section 4.5.
\<close>

text \<open>
  Modelled from the spec: \<open>rollbackBlock\<close>, missing from store.ts (no body). Rolling back
  a block deletes its hot-block row and the change-log entries of that block (step 6).
\<close>

definition rollbackBlock :: "'d db \<Rightarrow> int \<Rightarrow> error + 'd db" where
  "rollbackBlock tx blockHeight =
     (case ns tx of
        None \<Rightarrow> Inl no_relation
      | Some n \<Rightarrow>
          (case hot_block n of
             None \<Rightarrow> Inl no_relation
           | Some hs \<Rightarrow>
               (case hot_change_log n of
                  None \<Rightarrow> Inl no_relation
                | Some cs \<Rightarrow>
                    Inr (tx\<lparr>ns := Some (n\<lparr>
                      hot_block := Some (filter (\<lambda>b. sint (hb_height b) \<noteq> blockHeight) hs),
                      hot_change_log :=
                        Some (filter (\<lambda>c. sint (cl_block_height c) \<noteq> blockHeight) cs)\<rparr>)\<rparr>))))"

text \<open>
  Modelled from the spec: the rollback loop of step 6, missing from store.ts (commented
  out), over the blocks to roll back in the order given.
\<close>

fun rollbackBlocks :: "'d db \<Rightarrow> HashAndHeight list \<Rightarrow> error + 'd db" where
  "rollbackBlocks tx [] = Inr tx"
| "rollbackBlocks tx (b # bs) =
     and_then (rollbackBlock tx (height b)) (\<lambda>tx1. rollbackBlocks tx1 bs)"

text \<open>
  Modelled from the spec: \<open>insertHotBlock\<close>, missing from store.ts (commented out).
  Insertion of a hot-block row; the primary key \<open>height\<close> refuses a second row of the
  same height.
\<close>

definition insertHotBlock :: "'d db \<Rightarrow> HashAndHeight \<Rightarrow> error + 'd db" where
  "insertHotBlock tx block =
     (case ns tx of
        None \<Rightarrow> Inl no_relation
      | Some n \<Rightarrow>
          (case hot_block n of
             None \<Rightarrow> Inl no_relation
           | Some hs \<Rightarrow>
               (if int4_ok (height block)
                then (if filter (\<lambda>b. sint (hb_height b) = height block) hs = []
                      then Inr (tx\<lparr>ns := Some (n\<lparr>hot_block := Some (hs @
                             [\<lparr>hb_height = word_of_int (height block), hb_hash = hash block\<rparr>])\<rparr>)\<rparr>)
                      else Inl (BackendError ''duplicate key value violates unique constraint''))
                else Inl (BackendError ''value out of range for type integer''))))"

text \<open>
  Modelled from the spec: \<open>deleteHotBlocks\<close>, missing from store.ts (commented out).
  Deletion of all hot-block rows at or below a height, cascading their change entries.
\<close>

definition deleteHotBlocks :: "'d db \<Rightarrow> int \<Rightarrow> error + 'd db" where
  "deleteHotBlocks tx finalizedHeight =
     (case ns tx of
        None \<Rightarrow> Inl no_relation
      | Some n \<Rightarrow>
          (case hot_block n of
             None \<Rightarrow> Inl no_relation
           | Some hs \<Rightarrow>
               (case hot_change_log n of
                  None \<Rightarrow> Inl no_relation
                | Some cs \<Rightarrow>
                    Inr (tx\<lparr>ns := Some (n\<lparr>
                      hot_block := Some (filter (\<lambda>b. finalizedHeight < sint (hb_height b)) hs),
                      hot_change_log :=
                        Some (filter (\<lambda>c. finalizedHeight < sint (cl_block_height c)) cs)\<rparr>)\<rparr>))))"

text \<open>
  Modelled from the spec: the advancement of the status row in step 9, missing from
  store.ts. The row is updated as in step 4 of section 4.3, conditioned on the nonce,
  and an update that changes no row is a detected race.
\<close>

definition advanceStatus :: "'d db \<Rightarrow> int \<Rightarrow> HashAndHeight \<Rightarrow> error + 'd db" where
  "advanceStatus tx n next =
     and_then (update_status tx n next) (\<lambda>(rowCount, tx').
       if rowCount = 0 then Inl (AssertionError (Some RACE_MSG)) else Inr tx')"

text \<open>
  Modelled from the spec: the held chain of step 1, the finalized head followed by top
  (missing from store.ts, commented out).
\<close>

definition held_chain :: "DatabaseState \<Rightarrow> HashAndHeight list" where
  "held_chain state = \<lparr>height = height state, hash = hash state\<rparr> # top_blocks state"

text \<open>
  Modelled from the spec: the rollback position of step 6 (missing from store.ts,
  commented out).
\<close>

definition rollbackPos :: "DatabaseState \<Rightarrow> HotTxInfo \<Rightarrow> int" where
  "rollbackPos state info = height (baseHead info) + 1 - height state"

text \<open>
  Modelled from the spec: the elements of the held chain at or after the rollback
  position, highest first (step 6; missing from store.ts, commented out).
\<close>

definition rollback_targets :: "DatabaseState \<Rightarrow> HotTxInfo \<Rightarrow> HashAndHeight list" where
  "rollback_targets state info = rev (drop (nat (rollbackPos state info)) (held_chain state))"

text \<open>
  Modelled from the spec: the second half of step 7 (missing from store.ts, commented
  out): each new block after the finalized slice is persisted as a hot-block row, then
  the mutation is applied to that single block.
\<close>

fun hot_loop ::
  "('d db \<Rightarrow> int \<Rightarrow> int \<Rightarrow> error + 'd db) \<Rightarrow> int \<Rightarrow> HashAndHeight list \<Rightarrow> 'd db \<Rightarrow> error + 'd db" where
  "hot_loop mutate i [] tx = Inr tx"
| "hot_loop mutate i (b # bs) tx =
     and_then (insertHotBlock tx b) (\<lambda>tx1.
     and_then (mutate tx1 i (i + 1)) (\<lambda>tx2.
     hot_loop mutate (i + 1) bs tx2))"

text \<open>
  Modelled from the spec: step 7 (missing from store.ts, commented out): the mutation is
  applied to the finalized slice of the new blocks as one batch, then block by block. The
  slice ends at \<open>finalizedHead.height - newBlocks[0].height + 1\<close>, as in the commented-out
  lines.
\<close>

definition apply_newBlocks ::
  "HotTxInfo \<Rightarrow> ('d db \<Rightarrow> int \<Rightarrow> int \<Rightarrow> error + 'd db) \<Rightarrow> 'd db \<Rightarrow> error + 'd db" where
  "apply_newBlocks info mutate tx =
     (case newBlocks info of
        [] \<Rightarrow> Inr tx
      | b0 # bs \<Rightarrow>
          (let finalizedEnd = height (finalizedHead info) - height b0 + 1 in
           if 0 < finalizedEnd
           then and_then (mutate tx 0 finalizedEnd) (\<lambda>tx1.
                  hot_loop mutate finalizedEnd (drop (nat finalizedEnd) (newBlocks info)) tx1)
           else hot_loop mutate 0 (newBlocks info) tx))"

text \<open>
  Modelled from the spec: the body of \<open>reconcile\<close>, steps 1 to 9 of section 4.4 (missing
  from store.ts, where \<open>transactHot2\<close> is commented out).
\<close>

definition reconcile_tx ::
  "HotTxInfo \<Rightarrow> ('d db \<Rightarrow> int \<Rightarrow> int \<Rightarrow> error + 'd db) \<Rightarrow> 'd db \<Rightarrow> error + unit \<times> 'd db" where
  "reconcile_tx info mutate tx =
     and_then (getState tx) (\<lambda>state.
     let chain = held_chain state in
     and_then (assertChainContinuity (baseHead info) (newBlocks info)) (\<lambda>_.
     and_then (js_assert (height (finalizedHead info) \<le>
                 height (if newBlocks info = [] then baseHead info else last (newBlocks info)))
                 None) (\<lambda>_.
     and_then (js_assert (filter (\<lambda>b. hash b = hash (baseHead info)) chain \<noteq> [])
                 (Some RACE_MSG)) (\<lambda>_.
     and_then (if newBlocks info = []
               then js_assert (hash (last chain) = hash (baseHead info)) (Some RACE_MSG)
               else Inr ()) (\<lambda>_.
     and_then (js_assert (height state \<le> height (finalizedHead info)) (Some RACE_MSG)) (\<lambda>_.
     and_then (js_assert (0 \<le> rollbackPos state info) None) (\<lambda>_.
     and_then (rollbackBlocks tx (rollback_targets state info)) (\<lambda>tx1.
     and_then (apply_newBlocks info mutate tx1) (\<lambda>tx2.
     (case take (nat (rollbackPos state info)) chain @ newBlocks info of
        [] \<Rightarrow> Inl (AssertionError None)
      | c0 # cs \<Rightarrow>
          (let pos = height (finalizedHead info) - height c0 in
           and_then (js_assert (0 \<le> pos \<and> nat pos < length (c0 # cs) \<and>
                       hash ((c0 # cs) ! nat pos) = hash (finalizedHead info)) None) (\<lambda>_.
           and_then (deleteHotBlocks tx2 (height (finalizedHead info))) (\<lambda>tx3.
           and_then (advanceStatus tx3 (nonce state) (finalizedHead info)) (\<lambda>tx4.
           Inr ((), tx4)))))))))))))))"

text \<open>
  Modelled from the spec: one attempt of \<open>reconcile\<close> under the retry wrapper of section
  4.5 (missing from store.ts): a detected race asks for a retry of the whole attempt, any
  other failure is the result at once.
\<close>

definition reconcile_attempt ::
  "DrizzleDatabase \<Rightarrow> HotTxInfo \<Rightarrow> ('d db \<Rightarrow> int \<Rightarrow> int \<Rightarrow> error + 'd db) \<Rightarrow>
     (error \<Rightarrow> error) \<Rightarrow> nat \<Rightarrow> 'd db \<Rightarrow> (error + unit) \<times> 'd db" where
  "reconcile_attempt this info mutate retry number d =
     (case transaction (reconcile_tx info mutate) (isolationLevel this) d of
        (Inl e, d') \<Rightarrow>
          (if e = AssertionError (Some RACE_MSG) then (Inl (retry e), d') else (Inl e, d'))
      | (Inr u, d') \<Rightarrow> (Inr u, d'))"

text \<open>
  Modelled from the spec: \<open>reconcile\<close>, the attempt in a transaction (step 10) under the
  bounded retry of section 4.5 (missing from store.ts).
\<close>

definition reconcile ::
  "DrizzleDatabase \<Rightarrow> HotTxInfo \<Rightarrow> ('d db \<Rightarrow> int \<Rightarrow> int \<Rightarrow> error + 'd db) \<Rightarrow> 'd db \<Rightarrow>
     (error + unit) \<times> 'd db" where
  "reconcile this info mutate d = promiseRetry (reconcile_attempt this info mutate) d"

section \<open>Notions used in the properties\<close>

text \<open>
  Continuity as the specification words it: in the sequence of heights, each element is
  exactly one greater than its predecessor.
\<close>

fun contiguous :: "int list \<Rightarrow> bool" where
  "contiguous (x # y # ys) = (y = x + 1 \<and> contiguous (y # ys))"
| "contiguous ys = True"

definition chain_heights :: "DatabaseState \<Rightarrow> int list" where
  "chain_heights s = height s # map height (top_blocks s)"

text \<open>The rows of a table, none when the table is absent.\<close>

definition status_rows :: "'d db \<Rightarrow> status_row list" where
  "status_rows d =
     (case ns d of None \<Rightarrow> []
      | Some n \<Rightarrow> (case status n of None \<Rightarrow> [] | Some rows \<Rightarrow> rows))"

definition hot_rows :: "'d db \<Rightarrow> hot_block_row list" where
  "hot_rows d =
     (case ns d of None \<Rightarrow> []
      | Some n \<Rightarrow> (case hot_block n of None \<Rightarrow> [] | Some rows \<Rightarrow> rows))"

definition change_rows :: "'d db \<Rightarrow> hot_change_log_row list" where
  "change_rows d =
     (case ns d of None \<Rightarrow> []
      | Some n \<Rightarrow> (case hot_change_log n of None \<Rightarrow> [] | Some rows \<Rightarrow> rows))"

definition seed_row :: status_row where
  "seed_row = \<lparr>row_id = 0, row_height = - 1, row_hash = ''0x'', row_nonce = 0\<rparr>"

text \<open>The state that a status row and the hot-block rows stand for.\<close>

definition loaded :: "status_row \<Rightarrow> hot_block_row list \<Rightarrow> DatabaseState" where
  "loaded r hs =
     \<lparr>height = sint (row_height r), hash = row_hash r,
      top_blocks = map (\<lambda>b. \<lparr>height = sint (hb_height b), hash = hb_hash b\<rparr>)
                     (sort_key (\<lambda>b. sint (hb_height b)) hs),
      nonce = sint (row_nonce r)\<rparr>"

text \<open>
  The persisted state: defined when the tables \<open>status\<close> and \<open>hot_block\<close> exist and
  \<open>status\<close> has exactly one row with id 0.
\<close>

definition persisted :: "'d db \<Rightarrow> DatabaseState option" where
  "persisted d =
     (case ns d of
        None \<Rightarrow> None
      | Some n \<Rightarrow>
          (case status n of
             None \<Rightarrow> None
           | Some rows \<Rightarrow>
               (case hot_block n of
                  None \<Rightarrow> None
                | Some hs \<Rightarrow>
                    (case filter (\<lambda>r. row_id r = 0) rows of
                       [r] \<Rightarrow> Some (loaded r hs)
                     | _ \<Rightarrow> None))))"

text \<open>A provisioned namespace: the three tables exist and \<open>status\<close> has a row with id 0.\<close>

definition provisioned :: "'d db \<Rightarrow> bool" where
  "provisioned d =
     (case ns d of
        None \<Rightarrow> False
      | Some n \<Rightarrow> status n \<noteq> None \<and> hot_block n \<noteq> None \<and> hot_change_log n \<noteq> None \<and>
          filter (\<lambda>r. row_id r = 0) (status_rows d) \<noteq> [])"

definition is_retrying :: "error \<Rightarrow> bool" where
  "is_retrying e = (case e of Retrying x \<Rightarrow> True | _ \<Rightarrow> False)"




section \<open>Inputs of the examples\<close>

text \<open>The caller's tables are a count of domain rows; the mutation inserts one row.\<close>

definition seeded_db :: "nat db" where
  "seeded_db =
     \<lparr>ns = Some \<lparr>status = Some [seed_row], hot_block = Some [], hot_change_log = Some []\<rparr>,
      domain = 0\<rparr>"

definition genesis_info :: FinalTxInfo where
  "genesis_info =
     \<lparr>prevHead = \<lparr>height = - 1, hash = ''0x''\<rparr>, nextHead = \<lparr>height = 0, hash = ''genesis''\<rparr>,
      isOnTop = True\<rparr>"

definition insert_row :: "nat db \<Rightarrow> error + nat db" where
  "insert_row tx = Inr (tx\<lparr>domain := Suc (domain tx)\<rparr>)"

text \<open>
  The status row as another processor's commit leaves it: the head it advanced to and the
  nonce it bumped.
\<close>

definition foreign_commit :: "HashAndHeight \<Rightarrow> int \<Rightarrow> 'd db \<Rightarrow> 'd db" where
  "foreign_commit head n tx =
     tx\<lparr>ns := map_option (\<lambda>nsp. nsp\<lparr>status := Some
            [\<lparr>row_id = 0, row_height = word_of_int (height head), row_hash = hash head,
              row_nonce = word_of_int n\<rparr>]\<rparr>) (ns tx)\<rparr>"

text \<open>
  The mutation inserts its row, and before the update of the status row runs, the commit
  of another processor has become visible.
\<close>

definition raced_once :: "nat db \<Rightarrow> error + nat db" where
  "raced_once tx =
     and_then (insert_row tx) (\<lambda>tx1. Inr (foreign_commit \<lparr>height = 0, hash = ''other''\<rparr> 1 tx1))"

definition raced_fork :: "nat db \<Rightarrow> error + nat db" where
  "raced_fork tx =
     and_then (insert_row tx) (\<lambda>tx1. Inr (foreign_commit \<lparr>height = 5, hash = ''fork''\<rparr> 3 tx1))"

text \<open>A held chain with finalized head (4, base) and hot blocks 5, 6 and 7.\<close>

definition reorg_db :: "(int \<times> int) list db" where
  "reorg_db =
     \<lparr>ns = Some
        \<lparr>status = Some [\<lparr>row_id = 0, row_height = 4, row_hash = ''base'', row_nonce = 0\<rparr>],
         hot_block = Some [\<lparr>hb_height = 5, hb_hash = ''a''\<rparr>, \<lparr>hb_height = 6, hb_hash = ''b''\<rparr>,
                           \<lparr>hb_height = 7, hb_hash = ''c''\<rparr>],
         hot_change_log = Some [\<lparr>cl_block_height = 6, cl_index = 0, cl_change = ''{}''\<rparr>,
                                \<lparr>cl_block_height = 7, cl_index = 0, cl_change = ''{}''\<rparr>]\<rparr>,
      domain = []\<rparr>"

definition reorg_state :: DatabaseState where
  "reorg_state =
     \<lparr>height = 4, hash = ''base'',
      top_blocks = [\<lparr>height = 5, hash = ''a''\<rparr>, \<lparr>height = 6, hash = ''b''\<rparr>,
                    \<lparr>height = 7, hash = ''c''\<rparr>],
      nonce = 0\<rparr>"

definition reorg_info :: HotTxInfo where
  "reorg_info =
     \<lparr>finalizedHead = \<lparr>height = 7, hash = ''c2''\<rparr>, baseHead = \<lparr>height = 6, hash = ''b''\<rparr>,
      newBlocks = [\<lparr>height = 7, hash = ''c2''\<rparr>, \<lparr>height = 8, hash = ''d''\<rparr>]\<rparr>"

text \<open>A mutation that records the slices it is called with.\<close>

definition record_slice ::
  "(int \<times> int) list db \<Rightarrow> int \<Rightarrow> int \<Rightarrow> error + (int \<times> int) list db" where
  "record_slice tx sliceBeg sliceEnd = Inr (tx\<lparr>domain := domain tx @ [(sliceBeg, sliceEnd)]\<rparr>)"

text \<open>
  A mutation that records, with the slice it is called with, the hot-block rows and the
  change-log rows that the transaction holds at the call.
\<close>

definition record_view ::
  "(int \<times> int \<times> hot_block_row list \<times> hot_change_log_row list) list db \<Rightarrow> int \<Rightarrow> int \<Rightarrow>
     error + (int \<times> int \<times> hot_block_row list \<times> hot_change_log_row list) list db" where
  "record_view tx sliceBeg sliceEnd =
     Inr (tx\<lparr>domain := domain tx @ [(sliceBeg, sliceEnd, hot_rows tx, change_rows tx)]\<rparr>)"

text \<open>The same held chain, for the recording mutation.\<close>

definition reorg_view_db ::
  "(int \<times> int \<times> hot_block_row list \<times> hot_change_log_row list) list db" where
  "reorg_view_db = \<lparr>ns = ns reorg_db, domain = []\<rparr>"

text \<open>A hot block at height 6 above the finalized head at height 4: a gap.\<close>

definition gap_db :: "nat db" where
  "gap_db =
     \<lparr>ns = Some
        \<lparr>status = Some [\<lparr>row_id = 0, row_height = 4, row_hash = ''base'', row_nonce = 0\<rparr>],
         hot_block = Some [\<lparr>hb_height = 6, hb_hash = ''b''\<rparr>],
         hot_change_log = Some []\<rparr>,
      domain = 0\<rparr>"

definition gap_state :: DatabaseState where
  "gap_state =
     \<lparr>height = 4, hash = ''base'', top_blocks = [\<lparr>height = 6, hash = ''b''\<rparr>], nonce = 0\<rparr>"

section \<open>Properties\<close>

subsection \<open>Sequencing and the statements\<close>

lemma and_then_Inl [simp]: "and_then (Inl e) f = Inl e"
  by (simp add: and_then_def)

lemma and_then_Inr [simp]: "and_then (Inr x) f = f x"
  by (simp add: and_then_def)

lemma and_then_eq_Inr: "and_then m f = Inr y \<longleftrightarrow> (\<exists>x. m = Inr x \<and> f x = Inr y)"
  by (cases m) simp_all

lemma and_then_eq_Inl: "and_then m f = Inl e \<longleftrightarrow> m = Inl e \<or> (\<exists>x. m = Inr x \<and> f x = Inl e)"
  by (cases m) simp_all

lemmas stmt_defs = create_schema_def create_status_def create_hot_block_def
  create_hot_change_log_def select_status_def insert_status_def select_hot_block_def

lemmas loader_defs = getState_def select_status_def select_hot_block_def js_assert_def
  mk_state_def assertStateInvariants_def isSafeInteger_def assertChainContinuity_def

subsection \<open>Continuity\<close>

lemma continuity_loop_iff:
  "continuity_loop h bs = Inr () \<longleftrightarrow> contiguous (h # map height bs)"
  by (induction bs arbitrary: h) auto

lemma continuity_loop_error:
  "continuity_loop h bs = Inl e \<Longrightarrow> e = AssertionError (Some ''blocks must form a continuous chain'')"
  by (induction bs arbitrary: h) (auto split: if_splits)

text \<open>\<open>contiguous\<close> says what the specification says, index by index.\<close>

lemma contiguous_nth:
  "contiguous xs \<longleftrightarrow> (\<forall>i. Suc i < length xs \<longrightarrow> xs ! Suc i = xs ! i + 1)"
proof (induction xs rule: contiguous.induct)
  case (1 x y ys)
  show ?case
  proof
    assume a: "contiguous (x # y # ys)"
    show "\<forall>i. Suc i < length (x # y # ys) \<longrightarrow> (x # y # ys) ! Suc i = (x # y # ys) ! i + 1"
    proof (intro allI impI)
      fix i assume "Suc i < length (x # y # ys)"
      then show "(x # y # ys) ! Suc i = (x # y # ys) ! i + 1"
        using a 1 by (cases i) auto
    qed
  next
    assume b: "\<forall>i. Suc i < length (x # y # ys) \<longrightarrow> (x # y # ys) ! Suc i = (x # y # ys) ! i + 1"
    then have "y = x + 1" by (auto dest: spec [of _ 0])
    moreover have "\<forall>i. Suc i < length (y # ys) \<longrightarrow> (y # ys) ! Suc i = (y # ys) ! i + 1"
    proof (intro allI impI)
      fix i assume "Suc i < length (y # ys)"
      then have "Suc (Suc i) < length (x # y # ys)" by simp
      from b [rule_format, OF this] show "(y # ys) ! Suc i = (y # ys) ! i + 1" by simp
    qed
    ultimately show "contiguous (x # y # ys)" using 1 by simp
  qed
qed (auto simp: less_Suc_eq_0_disj)

lemma sint_int4_safe: "isSafeInteger (sint (w :: int4))"
proof -
  have "- (2 ^ 31) \<le> sint w" "sint w < 2 ^ 31"
    using sint_ge [of w] sint_lt [of w] by simp_all
  then show ?thesis by (simp add: isSafeInteger_def)
qed

lemma assertStateInvariants_iff:
  "assertStateInvariants s = Inr s' \<longleftrightarrow>
     s' = s \<and> isSafeInteger (height s) \<and> contiguous (chain_heights s)"
  by (auto simp: assertStateInvariants_def js_assert_def assertChainContinuity_def chain_heights_def
      and_then_eq_Inr continuity_loop_iff)

lemma assertStateInvariants_reject:
  assumes "isSafeInteger (height p)" and "\<not> contiguous (chain_heights p)"
  shows "assertStateInvariants p = Inl (AssertionError (Some ''blocks must form a continuous chain''))"
proof (cases "continuity_loop (height p) (top_blocks p)")
  case (Inl e)
  then have "e = AssertionError (Some ''blocks must form a continuous chain'')"
    by (rule continuity_loop_error)
  with Inl assms(1) show ?thesis
    by (simp add: assertStateInvariants_def js_assert_def assertChainContinuity_def)
next
  case (Inr u)
  then have "contiguous (chain_heights p)"
    by (simp add: continuity_loop_iff [symmetric] chain_heights_def)
  with assms(2) show ?thesis by simp
qed

lemma assertStateInvariants_error:
  "assertStateInvariants s = Inl e \<Longrightarrow> \<not> is_retrying e"
  by (auto simp: assertStateInvariants_def and_then_eq_Inl js_assert_def assertChainContinuity_def
      is_retrying_def dest: continuity_loop_error split: if_splits)

subsection \<open>The state loader returns the persisted state or rejects it\<close>

lemma persisted_cases:
  assumes "persisted tx = Some p"
  obtains n rows hs r where "ns tx = Some n" "status n = Some rows" "hot_block n = Some hs"
    "filter (\<lambda>r. row_id r = 0) rows = [r]" "p = loaded r hs"
proof -
  from assms obtain n where n: "ns tx = Some n"
    by (cases "ns tx") (simp_all add: persisted_def)
  from assms n obtain rows where rows: "status n = Some rows"
    by (cases "status n") (simp_all add: persisted_def)
  from assms n rows obtain hs where hs: "hot_block n = Some hs"
    by (cases "hot_block n") (simp_all add: persisted_def)
  from assms n rows hs obtain r where r: "filter (\<lambda>r. row_id r = 0) rows = [r]"
    by (cases "filter (\<lambda>r. row_id r = 0) rows"; cases "tl (filter (\<lambda>r. row_id r = 0) rows)")
       (auto simp: persisted_def split: list.splits)
  from assms n rows hs r have "p = loaded r hs"
    by (simp add: persisted_def)
  with n rows hs r show ?thesis by (rule that)
qed

lemma persisted_safe: "persisted tx = Some p \<Longrightarrow> isSafeInteger (height p)"
  by (erule persisted_cases) (simp add: loaded_def sint_int4_safe)

lemma persisted_getState: "persisted tx = Some p \<Longrightarrow> getState tx = assertStateInvariants p"
  by (erule persisted_cases)
     (simp add: getState_def select_status_def select_hot_block_def js_assert_def mk_state_def loaded_def)

lemma getState_persisted: "getState tx = Inr s \<Longrightarrow> persisted tx = Some s"
  apply (simp add: getState_def persisted_def select_status_def select_hot_block_def no_relation_def
      split: option.splits)
  apply (auto simp: and_then_eq_Inr js_assert_def assertStateInvariants_iff mk_state_def loaded_def
      length_Suc_conv split: list.splits if_splits)
  done

lemma getState_iff:
  "getState tx = Inr s \<longleftrightarrow> persisted tx = Some s \<and> contiguous (chain_heights s)"
proof
  assume g: "getState tx = Inr s"
  then have p: "persisted tx = Some s" by (rule getState_persisted)
  with g show "persisted tx = Some s \<and> contiguous (chain_heights s)"
    by (simp add: persisted_getState assertStateInvariants_iff)
next
  assume a: "persisted tx = Some s \<and> contiguous (chain_heights s)"
  then have "isSafeInteger (height s)" by (blast intro: persisted_safe)
  with a show "getState tx = Inr s"
    by (simp add: persisted_getState assertStateInvariants_iff)
qed

lemma getState_reject:
  assumes "persisted tx = Some p" and "\<not> contiguous (chain_heights p)"
  shows "getState tx = Inl (AssertionError (Some ''blocks must form a continuous chain''))"
  using assms by (simp add: persisted_getState persisted_safe assertStateInvariants_reject)

lemma getState_error: "getState tx = Inl e \<Longrightarrow> \<not> is_retrying e"
  by (auto simp: getState_def and_then_eq_Inl js_assert_def select_status_def select_hot_block_def
      no_relation_def is_retrying_def dest!: assertStateInvariants_error split: if_splits option.splits)

subsection \<open>connect\<close>

text \<open>
  What \<open>connect\<close> does in one step: it loads the first row with id 0, or the seed row when
  there is none, and leaves the namespace with its three tables.
\<close>

lemma connect_tx_closed:
  "connect_tx d =
     (let sel = filter (\<lambda>r. row_id r = 0) (status_rows d) in
      and_then (assertStateInvariants (loaded (if sel = [] then seed_row else hd sel) (hot_rows d)))
        (\<lambda>state. Inr (state,
           d\<lparr>ns := Some \<lparr>status = Some (if sel = [] then status_rows d @ [seed_row] else status_rows d),
                          hot_block = Some (hot_rows d),
                          hot_change_log = Some (change_rows d)\<rparr>\<rparr>)))"
proof -
  obtain nn dm where d: "d = \<lparr>ns = nn, domain = dm\<rparr>"
    by (cases d) simp
  show ?thesis
  proof (cases nn)
    case None
    then show ?thesis
      by (simp add: d connect_tx_def stmt_defs status_rows_def hot_rows_def change_rows_def
          seed_row_def loaded_def mk_state_def Let_def)
  next
    case (Some n)
    obtain st hb cl where n: "n = \<lparr>status = st, hot_block = hb, hot_change_log = cl\<rparr>"
      by (cases n) simp
    show ?thesis
    proof (cases st)
      case None
      show ?thesis
        by (cases hb; cases cl)
          (simp_all add: d Some n None connect_tx_def stmt_defs status_rows_def hot_rows_def
            change_rows_def seed_row_def loaded_def mk_state_def Let_def)
    next
      case st: (Some rows)
      show ?thesis
        by (cases hb; cases cl; cases "filter (\<lambda>r. row_id r = 0) rows = []")
          (simp_all add: d Some n st connect_tx_def stmt_defs status_rows_def hot_rows_def
            change_rows_def seed_row_def loaded_def mk_state_def hd_map Let_def)
    qed
  qed
qed

lemma provisioned_ns:
  "provisioned d \<Longrightarrow>
   d\<lparr>ns := Some \<lparr>status = Some (status_rows d), hot_block = Some (hot_rows d),
                  hot_change_log = Some (change_rows d)\<rparr>\<rparr> = d"
  by (cases d) (auto simp: provisioned_def status_rows_def hot_rows_def change_rows_def split: option.splits)

lemma connect_tx_provisioned:
  "provisioned d \<Longrightarrow>
   connect_tx d =
     and_then (assertStateInvariants (loaded (hd (filter (\<lambda>r. row_id r = 0) (status_rows d))) (hot_rows d)))
       (\<lambda>state. Inr (state, d))"
proof -
  assume p: "provisioned d"
  then have "filter (\<lambda>r. row_id r = 0) (status_rows d) \<noteq> []"
    by (simp add: provisioned_def split: option.splits)
  then show ?thesis
    by (simp add: connect_tx_closed Let_def provisioned_ns [OF p])
qed

lemma connect_tx_Inr_provisioned:
  "connect_tx d = Inr (s, d') \<Longrightarrow> provisioned d'"
  by (auto simp: connect_tx_closed Let_def and_then_eq_Inr provisioned_def status_rows_def seed_row_def
      split: if_splits)

lemma connect_tx_again:
  assumes "connect_tx d = Inr (s, d')"
  shows "connect_tx d' = Inr (s, d')"
proof -
  have p: "provisioned d'" using assms by (rule connect_tx_Inr_provisioned)
  from assms show ?thesis
    unfolding connect_tx_provisioned [OF p]
    by (auto simp: connect_tx_closed Let_def and_then_eq_Inr status_rows_def hot_rows_def seed_row_def
      split: if_splits)
qed

lemma connect_Inr:
  "fst (connect this d) = Inr s \<Longrightarrow> contiguous (chain_heights s) \<and> isSafeInteger (height s)"
  by (auto simp: connect_def transaction_def connect_tx_closed Let_def and_then_eq_Inr
      assertStateInvariants_iff split: sum.splits)

lemma connect_reject:
  assumes "persisted tx = Some p" and "\<not> contiguous (chain_heights p)"
  shows "connect this tx = (Inl (AssertionError (Some ''blocks must form a continuous chain'')), tx)"
proof -
  from assms(1) obtain n rows hs r where *:
    "ns tx = Some n" "status n = Some rows" "hot_block n = Some hs" "filter (\<lambda>r. row_id r = 0) rows = [r]"
    and p: "p = loaded r hs"
    by (rule persisted_cases)
  have "assertStateInvariants (loaded r hs) = Inl (AssertionError (Some ''blocks must form a continuous chain''))"
    using assms persisted_safe [OF assms(1)] p by (simp add: assertStateInvariants_reject)
  then show ?thesis using *
    by (simp add: connect_def transaction_def connect_tx_closed Let_def status_rows_def hot_rows_def)
qed

text \<open>
  C7. On the first connection against a fresh namespace (one that does not exist yet),
  \<open>connect\<close> creates the three tables, leaves exactly one status row, with id 0,
  height -1, hash "0x" and nonce 0, and returns the state with those values and an
  empty top.
\<close>

theorem connect_fresh_seeds_status:
  "connect this (d\<lparr>ns := None\<rparr>) =
     (Inr \<lparr>height = - 1, hash = ''0x'', top_blocks = [], nonce = 0\<rparr>,
      d\<lparr>ns := Some \<lparr>status = Some [\<lparr>row_id = 0, row_height = - 1, row_hash = ''0x'', row_nonce = 0\<rparr>],
                     hot_block = Some [], hot_change_log = Some []\<rparr>\<rparr>)"
  by (simp add: connect_def transaction_def connect_tx_def stmt_defs assertStateInvariants_def
      mk_state_def js_assert_def isSafeInteger_def assertChainContinuity_def)

lemma connect_returns_persisted:
  assumes pr: "provisioned d" and p: "persisted d = Some p" and c: "contiguous (chain_heights p)"
  shows "connect this d = (Inr p, d)"
proof -
  from p obtain n rows hs r where *:
    "ns d = Some n" "status n = Some rows" "hot_block n = Some hs" "filter (\<lambda>r. row_id r = 0) rows = [r]"
    and l: "p = loaded r hs"
    by (rule persisted_cases)
  from * have "loaded (hd (filter (\<lambda>r. row_id r = 0) (status_rows d))) (hot_rows d) = p"
    by (simp add: status_rows_def hot_rows_def l)
  moreover have "assertStateInvariants p = Inr p"
    using c persisted_safe [OF p] by (simp add: assertStateInvariants_iff)
  ultimately show ?thesis
    by (simp add: connect_def transaction_def connect_tx_provisioned [OF pr])
qed

text \<open>
  C6. \<open>connect\<close> is idempotent: on a provisioned namespace it changes nothing in the
  database, and when the persisted state is contiguous it returns that state as it is;
  after a \<open>connect\<close> that returned a state, the namespace is provisioned and a second
  \<open>connect\<close> returns the same state and the same database.
\<close>

theorem connect_idempotent:
  "(provisioned d \<longrightarrow> snd (connect this d) = d) \<and>
   (provisioned d \<and> persisted d = Some p \<and> contiguous (chain_heights p) \<longrightarrow>
      connect this d = (Inr p, d)) \<and>
   (connect this d0 = (Inr s, d1) \<longrightarrow> provisioned d1 \<and> connect this d1 = (Inr s, d1))"
proof (intro conjI impI)
  assume "provisioned d"
  then show "snd (connect this d) = d"
    by (cases "assertStateInvariants (loaded (hd (filter (\<lambda>r. row_id r = 0) (status_rows d))) (hot_rows d))")
      (simp_all add: connect_def transaction_def connect_tx_provisioned)
next
  assume "provisioned d \<and> persisted d = Some p \<and> contiguous (chain_heights p)"
  then show "connect this d = (Inr p, d)"
    by (simp add: connect_returns_persisted)
next
  assume a: "connect this d0 = (Inr s, d1)"
  then have c: "connect_tx d0 = Inr (s, d1)"
    by (auto simp: connect_def transaction_def split: sum.splits)
  show "provisioned d1" using c by (rule connect_tx_Inr_provisioned)
  show "connect this d1 = (Inr s, d1)"
    by (simp add: connect_def transaction_def connect_tx_again [OF c])
qed

theorem connect_idempotent_witness:
  "provisioned seeded_db \<and>
   snd (connect (new_DrizzleDatabase None) seeded_db) = seeded_db \<and>
   provisioned reorg_db \<and> persisted reorg_db = Some reorg_state \<and>
   contiguous (chain_heights reorg_state) \<and>
   connect (new_DrizzleDatabase None) reorg_db = (Inr reorg_state, reorg_db) \<and>
   connect (new_DrizzleDatabase None) (seeded_db\<lparr>ns := None\<rparr>) =
     (Inr \<lparr>height = - 1, hash = ''0x'', top_blocks = [], nonce = 0\<rparr>, seeded_db) \<and>
   connect (new_DrizzleDatabase None) seeded_db =
     (Inr \<lparr>height = - 1, hash = ''0x'', top_blocks = [], nonce = 0\<rparr>, seeded_db)"
proof -
  have h1: "provisioned seeded_db"
    by (simp add: provisioned_def seeded_db_def status_rows_def seed_row_def)
  have h2: "connect (new_DrizzleDatabase None) (seeded_db\<lparr>ns := None\<rparr>) =
     (Inr \<lparr>height = - 1, hash = ''0x'', top_blocks = [], nonce = 0\<rparr>, seeded_db)"
    by (simp add: connect_def transaction_def connect_tx_def stmt_defs assertStateInvariants_def
      mk_state_def js_assert_def isSafeInteger_def assertChainContinuity_def seeded_db_def seed_row_def)
  have h3: "provisioned reorg_db"
    by (simp add: provisioned_def reorg_db_def status_rows_def)
  have h4: "persisted reorg_db = Some reorg_state"
    by (simp add: persisted_def reorg_db_def reorg_state_def loaded_def)
  have h5: "contiguous (chain_heights reorg_state)"
    by (simp add: reorg_state_def chain_heights_def)
  from h1 h2
    connect_idempotent [where d = seeded_db and this = "new_DrizzleDatabase None"
      and p = "\<lparr>height = - 1, hash = ''0x'', top_blocks = [], nonce = 0\<rparr>"
      and ?d0.0 = "seeded_db\<lparr>ns := None\<rparr>" and ?d1.0 = seeded_db
      and s = "\<lparr>height = - 1, hash = ''0x'', top_blocks = [], nonce = 0\<rparr>"]
  have a: "snd (connect (new_DrizzleDatabase None) seeded_db) = seeded_db \<and>
    connect (new_DrizzleDatabase None) seeded_db =
     (Inr \<lparr>height = - 1, hash = ''0x'', top_blocks = [], nonce = 0\<rparr>, seeded_db)"
    by blast
  from h3 h4 h5
    connect_idempotent [where d = reorg_db and this = "new_DrizzleDatabase None" and p = reorg_state
      and ?d0.0 = reorg_db and ?d1.0 = reorg_db and s = reorg_state]
  have b: "connect (new_DrizzleDatabase None) reorg_db = (Inr reorg_state, reorg_db)"
    by blast
  from h1 h2 h3 h4 h5 a b show ?thesis by blast
qed

text \<open>
  C4. Every state returned by \<open>getState\<close> and by \<open>connect\<close> is height-contiguous over the
  finalized head followed by top, and its height is a safe integer; a persisted state
  that is not contiguous is rejected with the assertion error by both, and \<open>connect\<close>
  leaves the database as it was.
\<close>

theorem loader_continuity:
  "(getState tx = Inr s \<longrightarrow> contiguous (chain_heights s) \<and> isSafeInteger (height s)) \<and>
   (fst (connect this d) = Inr s' \<longrightarrow> contiguous (chain_heights s') \<and> isSafeInteger (height s')) \<and>
   (persisted bad = Some p \<and> \<not> contiguous (chain_heights p) \<longrightarrow>
      getState bad = Inl (AssertionError (Some ''blocks must form a continuous chain'')) \<and>
      connect this bad = (Inl (AssertionError (Some ''blocks must form a continuous chain'')), bad))"
proof (intro conjI impI)
  assume g: "getState tx = Inr s"
  then show "contiguous (chain_heights s)" by (simp add: getState_iff)
  from g show "isSafeInteger (height s)"
    by (auto simp: getState_def and_then_eq_Inr assertStateInvariants_iff)
next
  assume "fst (connect this d) = Inr s'"
  then show "contiguous (chain_heights s')" "isSafeInteger (height s')"
    by (simp_all add: connect_Inr)
next
  assume "persisted bad = Some p \<and> \<not> contiguous (chain_heights p)"
  then show "getState bad = Inl (AssertionError (Some ''blocks must form a continuous chain''))"
    "connect this bad = (Inl (AssertionError (Some ''blocks must form a continuous chain'')), bad)"
    by (simp_all add: getState_reject connect_reject)
qed

theorem loader_continuity_witness:
  "getState reorg_db = Inr reorg_state \<and>
   contiguous (chain_heights reorg_state) \<and> isSafeInteger (height reorg_state) \<and>
   fst (connect (new_DrizzleDatabase None) (seeded_db\<lparr>ns := None\<rparr>)) =
     Inr \<lparr>height = - 1, hash = ''0x'', top_blocks = [], nonce = 0\<rparr> \<and>
   contiguous (chain_heights \<lparr>height = - 1, hash = ''0x'', top_blocks = [], nonce = 0\<rparr>) \<and>
   persisted gap_db = Some gap_state \<and> \<not> contiguous (chain_heights gap_state) \<and>
   getState gap_db = Inl (AssertionError (Some ''blocks must form a continuous chain'')) \<and>
   connect (new_DrizzleDatabase None) gap_db =
     (Inl (AssertionError (Some ''blocks must form a continuous chain'')), gap_db)"
proof -
  have h1: "getState reorg_db = Inr reorg_state"
    by (simp add: loader_defs reorg_db_def reorg_state_def)
  have h2: "fst (connect (new_DrizzleDatabase None) (seeded_db\<lparr>ns := None\<rparr>)) =
     Inr \<lparr>height = - 1, hash = ''0x'', top_blocks = [], nonce = 0\<rparr>"
    by (simp add: connect_def transaction_def connect_tx_def stmt_defs assertStateInvariants_def
      mk_state_def js_assert_def isSafeInteger_def assertChainContinuity_def)
  have h3: "persisted gap_db = Some gap_state"
    by (simp add: persisted_def gap_db_def gap_state_def loaded_def)
  have h4: "\<not> contiguous (chain_heights gap_state)"
    by (simp add: gap_state_def chain_heights_def)
  from h1 h2 h3 h4
    loader_continuity [where tx = reorg_db and s = reorg_state and this = "new_DrizzleDatabase None"
      and d = "seeded_db\<lparr>ns := None\<rparr>"
      and s' = "\<lparr>height = - 1, hash = ''0x'', top_blocks = [], nonce = 0\<rparr>"
      and bad = gap_db and p = gap_state]
  show ?thesis by simp
qed

subsection \<open>transact\<close>

lemma updateStatus_error: "updateStatus tx n next = Inl e \<Longrightarrow> \<not> is_retrying e"
  by (auto simp: updateStatus_def update_status_def and_then_eq_Inl no_relation_def is_retrying_def
      split: if_splits option.splits)

lemma transact_tx_pre:
  "transact_tx info cb tx =
     (case getState tx of
        Inl e \<Rightarrow> Inl e
      | Inr state \<Rightarrow>
          if hash state \<noteq> hash (prevHead info) then Inl (AssertionError (Some RACE_MSG))
          else if height state \<noteq> height (prevHead info) then Inl (AssertionError None)
          else if \<not> height (prevHead info) < height (nextHead info) then Inl (AssertionError None)
          else if hash (prevHead info) = hash (nextHead info) then Inl (AssertionError None)
          else and_then (cb tx) (\<lambda>tx1.
               and_then (updateStatus tx1 (nonce state) (nextHead info)) (\<lambda>tx2. Inr ((), tx2))))"
  by (simp add: transact_tx_def js_assert_def Let_def split: sum.splits)

lemma promiseRetry_from_const:
  assumes "\<And>num. fn retry_fn num s = (res, t)"
    and "\<And>e. res = Inl (Retrying e) \<Longrightarrow> t = s"
  shows "promiseRetry_from k n fn s =
           (case res of Inl (Retrying err) \<Rightarrow> (Inl err, s) | _ \<Rightarrow> (res, t))"
proof (induction k arbitrary: n)
  case 0
  show ?case using assms(2) by (auto simp: assms(1) split: sum.splits error.splits)
next
  case (Suc k)
  show ?case using assms(2) by (auto simp: assms(1) Suc split: sum.splits error.splits)
qed

lemma attempts_from_const:
  assumes "\<And>num. fn retry_fn num s = (res, t)"
    and "\<And>e. res = Inl (Retrying e) \<Longrightarrow> t = s"
  shows "attempts_from k n fn s = (case res of Inl (Retrying err) \<Rightarrow> Suc k | _ \<Rightarrow> 1)"
proof (induction k arbitrary: n)
  case 0
  show ?case by (auto split: sum.splits error.splits)
next
  case (Suc k)
  show ?case using assms(2) by (auto simp: assms(1) Suc split: sum.splits error.splits)
qed

lemma transact_attempt_eq:
  "transact_attempt this info cb retry number d =
     (case transact_tx info cb d of Inl e \<Rightarrow> (Inl e, d) | Inr (u, tx') \<Rightarrow> (Inr (), tx'))"
  by (simp add: transact_attempt_def transaction_def split: sum.splits)

lemma transact_closed:
  "transact this info cb d =
     (case transact_tx info cb d of
        Inl e \<Rightarrow> (Inl (case e of Retrying err \<Rightarrow> err | _ \<Rightarrow> e), d)
      | Inr (u, tx') \<Rightarrow> (Inr (), tx'))"
proof -
  let ?res = "fst (transact_attempt this info cb retry_fn 1 d)"
  let ?t = "snd (transact_attempt this info cb retry_fn 1 d)"
  have a: "\<And>num. transact_attempt this info cb retry_fn num d = (?res, ?t)"
    by (simp add: transact_attempt_eq)
  have b: "\<And>e. ?res = Inl (Retrying e) \<Longrightarrow> ?t = d"
    by (auto simp: transact_attempt_eq split: sum.splits)
  have "promiseRetry_from 10 1 (transact_attempt this info cb) d =
          (case ?res of Inl (Retrying err) \<Rightarrow> (Inl err, d) | _ \<Rightarrow> (?res, ?t))"
    by (rule promiseRetry_from_const [where fn = "transact_attempt this info cb" and s = d
          and res = ?res and t = ?t, OF a b])
  then show ?thesis
    by (auto simp: transact_def promiseRetry_def transact_attempt_eq split: sum.splits error.splits)
qed

lemma transact_attempts:
  "attempts (transact_attempt this info cb) d =
     (case transact_tx info cb d of Inl (Retrying err) \<Rightarrow> 11 | _ \<Rightarrow> 1)"
proof -
  let ?res = "fst (transact_attempt this info cb retry_fn 1 d)"
  let ?t = "snd (transact_attempt this info cb retry_fn 1 d)"
  have a: "\<And>num. transact_attempt this info cb retry_fn num d = (?res, ?t)"
    by (simp add: transact_attempt_eq)
  have b: "\<And>e. ?res = Inl (Retrying e) \<Longrightarrow> ?t = d"
    by (auto simp: transact_attempt_eq split: sum.splits)
  have "attempts_from 10 1 (transact_attempt this info cb) d =
          (case ?res of Inl (Retrying err) \<Rightarrow> Suc 10 | _ \<Rightarrow> 1)"
    by (rule attempts_from_const [where fn = "transact_attempt this info cb" and s = d
          and res = ?res and t = ?t, OF a b])
  then show ?thesis
    by (auto simp: attempts_def transact_attempt_eq split: sum.splits error.splits)
qed

text \<open>Only the callback can make transact try again: every failure of the protocol itself is final.\<close>

lemma transact_tx_retrying:
  assumes "transact_tx info cb d = Inl e" and "is_retrying e"
  shows "cb d = Inl e"
proof (cases "getState d")
  case (Inl e')
  with assms show ?thesis by (auto simp: transact_tx_pre dest: getState_error)
next
  case (Inr state)
  with assms show ?thesis
    by (auto simp: transact_tx_pre is_retrying_def and_then_eq_Inl split: if_splits dest!: updateStatus_error)
qed

lemma transact_single_attempt:
  assumes "\<And>e. cb d \<noteq> Inl (Retrying e)"
  shows "attempts (transact_attempt this info cb) d = 1"
proof -
  have "\<And>e. transact_tx info cb d \<noteq> Inl (Retrying e)"
  proof
    fix e assume a: "transact_tx info cb d = Inl (Retrying e)"
    have "is_retrying (Retrying e)" by (simp add: is_retrying_def)
    from transact_tx_retrying [OF a this] assms show False by simp
  qed
  then show ?thesis
    by (auto simp: transact_attempts split: sum.splits error.splits)
qed

text \<open>
  C5. When \<open>info\<close> violates a precondition (the next height is not above the previous
  one, or the two hashes are equal, or the persisted head differs from \<open>prevHead\<close>),
  \<open>transact\<close> fails with an error that does not depend on the callback, so the callback has
  not run, and the database is left as it was.
\<close>

theorem transact_precondition_failure:
  assumes "height (nextHead info) \<le> height (prevHead info) \<or>
           hash (nextHead info) = hash (prevHead info) \<or>
           (\<exists>s. persisted d = Some s \<and>
                (height s \<noteq> height (prevHead info) \<or> hash s \<noteq> hash (prevHead info)))"
  shows "\<exists>e. \<forall>cb. transact this info cb d = (Inl e, d)"
proof (cases "getState d")
  case (Inl e)
  then have "\<not> is_retrying e" by (rule getState_error)
  then have "\<forall>cb. transact this info cb d = (Inl e, d)"
    by (auto simp: transact_closed transact_tx_pre Inl is_retrying_def split: error.splits)
  then show ?thesis ..
next
  case (Inr s)
  then have p: "persisted d = Some s" by (simp add: getState_iff)
  show ?thesis
  proof (cases "hash s \<noteq> hash (prevHead info)")
    case True
    then have "\<forall>cb. transact this info cb d = (Inl (AssertionError (Some RACE_MSG)), d)"
      by (simp add: transact_closed transact_tx_pre Inr)
    then show ?thesis ..
  next
    case False
    then have "\<forall>cb. transact this info cb d = (Inl (AssertionError None), d)"
      using assms p by (auto simp: transact_closed transact_tx_pre Inr)
    then show ?thesis ..
  qed
qed

lemmas eval_defs = transact_def promiseRetry_def transact_attempt_def transaction_def transact_tx_def
  loader_defs RACE_MSG_def updateStatus_def update_status_def update_matches_def update_row_def
  int4_ok_def new_DrizzleDatabase_def eval_nat_numeral

theorem transact_precondition_failure_witness:
  "height (nextHead \<lparr>prevHead = \<lparr>height = - 1, hash = ''0x''\<rparr>, nextHead = \<lparr>height = - 1, hash = ''g''\<rparr>, isOnTop = True\<rparr>)
     \<le> height (prevHead \<lparr>prevHead = \<lparr>height = - 1, hash = ''0x''\<rparr>, nextHead = \<lparr>height = - 1, hash = ''g''\<rparr>, isOnTop = True\<rparr>) \<and>
   (\<exists>e. \<forall>cb. transact (new_DrizzleDatabase None)
       \<lparr>prevHead = \<lparr>height = - 1, hash = ''0x''\<rparr>, nextHead = \<lparr>height = - 1, hash = ''g''\<rparr>, isOnTop = True\<rparr>
       cb seeded_db = (Inl e, seeded_db)) \<and>
   (\<exists>e. \<forall>cb. transact (new_DrizzleDatabase None)
       \<lparr>prevHead = \<lparr>height = - 1, hash = ''0x''\<rparr>, nextHead = \<lparr>height = 0, hash = ''0x''\<rparr>, isOnTop = True\<rparr>
       cb seeded_db = (Inl e, seeded_db)) \<and>
   persisted seeded_db = Some \<lparr>height = - 1, hash = ''0x'', top_blocks = [], nonce = 0\<rparr> \<and>
   (\<exists>e. \<forall>cb. transact (new_DrizzleDatabase None)
       \<lparr>prevHead = \<lparr>height = 3, hash = ''zz''\<rparr>, nextHead = \<lparr>height = 4, hash = ''g''\<rparr>, isOnTop = True\<rparr>
       cb seeded_db = (Inl e, seeded_db))"
proof -
  have p: "persisted seeded_db = Some \<lparr>height = - 1, hash = ''0x'', top_blocks = [], nonce = 0\<rparr>"
    by (simp add: persisted_def seeded_db_def seed_row_def loaded_def)
  have a: "\<exists>e. \<forall>cb. transact (new_DrizzleDatabase None)
       \<lparr>prevHead = \<lparr>height = - 1, hash = ''0x''\<rparr>, nextHead = \<lparr>height = - 1, hash = ''g''\<rparr>, isOnTop = True\<rparr>
       cb seeded_db = (Inl e, seeded_db)"
    by (rule transact_precondition_failure) simp
  have b: "\<exists>e. \<forall>cb. transact (new_DrizzleDatabase None)
       \<lparr>prevHead = \<lparr>height = - 1, hash = ''0x''\<rparr>, nextHead = \<lparr>height = 0, hash = ''0x''\<rparr>, isOnTop = True\<rparr>
       cb seeded_db = (Inl e, seeded_db)"
    by (rule transact_precondition_failure) simp
  have c: "\<exists>e. \<forall>cb. transact (new_DrizzleDatabase None)
       \<lparr>prevHead = \<lparr>height = 3, hash = ''zz''\<rparr>, nextHead = \<lparr>height = 4, hash = ''g''\<rparr>, isOnTop = True\<rparr>
       cb seeded_db = (Inl e, seeded_db)"
    by (rule transact_precondition_failure) (simp add: p)
  from p a b c show ?thesis by simp
qed

lemma sint_word_of_int4: "int4_ok h \<Longrightarrow> sint (word_of_int h :: int4) = h"
  by (simp add: int4_ok_def sint_sbintrunc' signed_take_bit_int_eq_self)

lemma sint_succ_int4:
  assumes "sint (w :: int4) \<noteq> 2 ^ 31 - 1"
  shows "sint (w + 1) = sint w + 1"
proof -
  have "- (2 ^ 31) \<le> sint w" "sint w < 2 ^ 31"
    using sint_ge [of w] sint_lt [of w] by simp_all
  with assms have "- (2 ^ 31) \<le> sint w + 1" "sint w + 1 < 2 ^ 31" by simp_all
  then show ?thesis
    by (simp add: sint_word_ariths signed_take_bit_int_eq_self)
qed

lemma filter_id0_map:
  "filter (\<lambda>r. row_id r = 0) (map (\<lambda>r. if update_matches n r then update_row next r else r) rows) =
   map (\<lambda>r. if update_matches n r then update_row next r else r) (filter (\<lambda>r. row_id r = 0) rows)"
  by (induction rows) (auto simp: update_row_def)

text \<open>
  When the callback leaves the namespace alone, a successful \<open>transact\<close> leaves the status
  row at the next head with the loaded nonce plus one, together with the callback's
  writes.
\<close>

lemma transact_advances_status:
  assumes t: "transact this info cb d = (Inr (), d')"
    and g: "getState d = Inr s"
    and c: "cb d = Inr tx1"
    and same: "ns tx1 = ns d"
  shows "persisted d' =
           Some (s\<lparr>height := height (nextHead info), hash := hash (nextHead info), nonce := nonce s + 1\<rparr>) \<and>
         domain d' = domain tx1"
proof -
  from g have p: "persisted d = Some s" by (simp add: getState_iff)
  then obtain nsp rows hs r where nsp: "ns d = Some nsp" and rows: "status nsp = Some rows"
    and hs: "hot_block nsp = Some hs" and r: "filter (\<lambda>r. row_id r = 0) rows = [r]"
    and s: "s = loaded r hs"
    by (rule persisted_cases)
  from t have u: "updateStatus tx1 (nonce s) (nextHead info) = Inr d'"
    by (auto simp: transact_closed transact_tx_pre g c and_then_eq_Inr split: sum.splits if_splits)
  have m: "update_matches (nonce s) r"
  proof -
    have "r \<in> set (filter (\<lambda>r. row_id r = 0) rows)" by (simp add: r)
    then show ?thesis by (simp add: update_matches_def s loaded_def)
  qed
  have rin: "r \<in> set rows"
  proof -
    have "r \<in> set (filter (\<lambda>r. row_id r = 0) rows)" by (simp add: r)
    then show ?thesis by simp
  qed
  from u same nsp rows have ok: "int4_ok (height (nextHead info))"
    and nov: "filter (\<lambda>r. update_matches (nonce s) r \<and> sint (row_nonce r) = 2 ^ 31 - 1) rows = []"
    and d': "d' = tx1\<lparr>ns := Some (nsp\<lparr>status := Some
        (map (\<lambda>r. if update_matches (nonce s) r then update_row (nextHead info) r else r) rows)\<rparr>)\<rparr>"
    by (auto simp: updateStatus_def update_status_def and_then_eq_Inr split: if_splits)
  from nov rin m have "sint (row_nonce r) \<noteq> 2 ^ 31 - 1"
    by (auto simp: filter_empty_conv)
  then have n1: "sint (row_nonce r + 1) = sint (row_nonce r) + 1" by (rule sint_succ_int4)
  have "persisted d' = Some (loaded (update_row (nextHead info) r) hs)"
    by (simp add: persisted_def d' hs filter_id0_map r m)
  then show ?thesis
    by (simp add: d' s loaded_def update_row_def sint_word_of_int4 [OF ok] n1)
qed

text \<open>The end-to-end example of the specification.\<close>

lemma genesis_example:
  "transact (new_DrizzleDatabase None) genesis_info insert_row seeded_db =
     (Inr (),
      \<lparr>ns = Some \<lparr>status = Some [\<lparr>row_id = 0, row_height = 0, row_hash = ''genesis'', row_nonce = 1\<rparr>],
                  hot_block = Some [], hot_change_log = Some []\<rparr>,
       domain = 1\<rparr>)"
  by (simp add: eval_defs genesis_info_def seeded_db_def seed_row_def insert_row_def)

text \<open>
  C1. The claim: an update of the status row that changes no row makes the attempt a
  detected race. The code at an input where the row's nonce has moved from 0 to 1 between
  the load and the update: the update changes no row, and \<open>transact\<close> returns without
  error and commits the mutation's row.
\<close>

theorem zero_row_update_commits:
  "getState seeded_db = Inr \<lparr>height = - 1, hash = ''0x'', top_blocks = [], nonce = 0\<rparr> \<and>
   raced_once seeded_db =
     Inr \<lparr>ns = Some \<lparr>status = Some [\<lparr>row_id = 0, row_height = 0, row_hash = ''other'', row_nonce = 1\<rparr>],
                      hot_block = Some [], hot_change_log = Some []\<rparr>, domain = 1\<rparr> \<and>
   update_status
     \<lparr>ns = Some \<lparr>status = Some [\<lparr>row_id = 0, row_height = 0, row_hash = ''other'', row_nonce = 1\<rparr>],
                  hot_block = Some [], hot_change_log = Some []\<rparr>, domain = 1\<rparr>
     0 (nextHead genesis_info) =
     Inr (0, \<lparr>ns = Some \<lparr>status = Some [\<lparr>row_id = 0, row_height = 0, row_hash = ''other'', row_nonce = 1\<rparr>],
                          hot_block = Some [], hot_change_log = Some []\<rparr>, domain = 1\<rparr>) \<and>
   transact (new_DrizzleDatabase None) genesis_info raced_once seeded_db =
     (Inr (), \<lparr>ns = Some \<lparr>status = Some [\<lparr>row_id = 0, row_height = 0, row_hash = ''other'', row_nonce = 1\<rparr>],
                           hot_block = Some [], hot_change_log = Some []\<rparr>, domain = 1\<rparr>)"
  by (simp add: eval_defs genesis_info_def raced_once_def seeded_db_def seed_row_def insert_row_def
      foreign_commit_def)

text \<open>
  C2. The claim: after every successful \<open>transact\<close> the status row holds the next head
  and the loaded nonce plus one. The code at an input where another processor has
  advanced the head to (5, fork) with nonce 3 between the load and the update:
  \<open>transact\<close> returns without error, the mutation's row is committed, and the status row
  holds neither the next head (0, genesis) nor the nonce 1.
\<close>

theorem transact_success_without_advance:
  "getState seeded_db = Inr \<lparr>height = - 1, hash = ''0x'', top_blocks = [], nonce = 0\<rparr> \<and>
   fst (transact (new_DrizzleDatabase None) genesis_info raced_fork seeded_db) = Inr () \<and>
   persisted (snd (transact (new_DrizzleDatabase None) genesis_info raced_fork seeded_db)) =
     Some \<lparr>height = 5, hash = ''fork'', top_blocks = [], nonce = 3\<rparr> \<and>
   domain (snd (transact (new_DrizzleDatabase None) genesis_info raced_fork seeded_db)) = 1"
  by (simp add: eval_defs genesis_info_def raced_fork_def seeded_db_def seed_row_def insert_row_def
      foreign_commit_def persisted_def loaded_def)

text \<open>
  C3. The claim: a failure that is a detected race is retried. The code at an input where
  the persisted head is not \<open>prevHead\<close>: \<open>transact\<close> fails with the race message after one
  attempt.
\<close>

theorem race_failure_not_retried:
  "getState (foreign_commit \<lparr>height = 0, hash = ''other''\<rparr> 1 seeded_db) =
     Inr \<lparr>height = 0, hash = ''other'', top_blocks = [], nonce = 1\<rparr> \<and>
   transact (new_DrizzleDatabase None) genesis_info insert_row
       (foreign_commit \<lparr>height = 0, hash = ''other''\<rparr> 1 seeded_db) =
     (Inl (AssertionError (Some RACE_MSG)), foreign_commit \<lparr>height = 0, hash = ''other''\<rparr> 1 seeded_db) \<and>
   attempts (transact_attempt (new_DrizzleDatabase None) genesis_info insert_row)
       (foreign_commit \<lparr>height = 0, hash = ''other''\<rparr> 1 seeded_db) = 1"
  by (simp add: eval_defs attempts_def genesis_info_def seeded_db_def seed_row_def insert_row_def
      foreign_commit_def)











subsection \<open>The reorg-reconciliation protocol\<close>

lemmas reconcile_defs = reconcile_def promiseRetry_def reconcile_attempt_def transaction_def
  reconcile_tx_def loader_defs RACE_MSG_def advanceStatus_def update_status_def update_matches_def
  update_row_def int4_ok_def new_DrizzleDatabase_def eval_nat_numeral held_chain_def rollbackPos_def
  rollback_targets_def rollbackBlock_def apply_newBlocks_def insertHotBlock_def deleteHotBlocks_def

text \<open>
  C8. The round trip of the reconciliation protocol: from the held chain with finalized
  head (4, base) and hot blocks (5, a), (6, b), (7, c), reconciling with base head (6, b),
  new blocks (7, c2), (8, d) and finalized head (7, c2) rolls back exactly the hot block
  (7, c), with its change-log entry, before the mutation runs: at its first call, for the
  finalized slice from 0 to 1, the mutation finds the hot blocks (5, a) and (6, b) only,
  and at its second call, for the block at index 1, it finds (8, d) above them. The call
  leaves (8, d) as the only hot block and the status row at (7, c2) with the nonce
  advanced by one.
\<close>

theorem reconcile_round_trip:
  "getState reorg_db = Inr reorg_state \<and>
   rollback_targets reorg_state reorg_info = [\<lparr>height = 7, hash = ''c''\<rparr>] \<and>
   rollbackBlocks reorg_db (rollback_targets reorg_state reorg_info) =
     Inr \<lparr>ns = Some
         \<lparr>status = Some [\<lparr>row_id = 0, row_height = 4, row_hash = ''base'', row_nonce = 0\<rparr>],
          hot_block = Some [\<lparr>hb_height = 5, hb_hash = ''a''\<rparr>, \<lparr>hb_height = 6, hb_hash = ''b''\<rparr>],
          hot_change_log = Some [\<lparr>cl_block_height = 6, cl_index = 0, cl_change = ''{}''\<rparr>]\<rparr>,
       domain = []\<rparr> \<and>
   reconcile (new_DrizzleDatabase None) reorg_info record_view reorg_view_db =
     (Inr (),
      \<lparr>ns = Some
         \<lparr>status = Some [\<lparr>row_id = 0, row_height = 7, row_hash = ''c2'', row_nonce = 1\<rparr>],
          hot_block = Some [\<lparr>hb_height = 8, hb_hash = ''d''\<rparr>],
          hot_change_log = Some []\<rparr>,
       domain =
         [(0, 1,
           [\<lparr>hb_height = 5, hb_hash = ''a''\<rparr>, \<lparr>hb_height = 6, hb_hash = ''b''\<rparr>],
           [\<lparr>cl_block_height = 6, cl_index = 0, cl_change = ''{}''\<rparr>]),
          (1, 2,
           [\<lparr>hb_height = 5, hb_hash = ''a''\<rparr>, \<lparr>hb_height = 6, hb_hash = ''b''\<rparr>,
            \<lparr>hb_height = 8, hb_hash = ''d''\<rparr>],
           [\<lparr>cl_block_height = 6, cl_index = 0, cl_change = ''{}''\<rparr>])]\<rparr>) \<and>
   reconcile (new_DrizzleDatabase None) reorg_info record_slice reorg_db =
     (Inr (),
      \<lparr>ns = Some
         \<lparr>status = Some [\<lparr>row_id = 0, row_height = 7, row_hash = ''c2'', row_nonce = 1\<rparr>],
          hot_block = Some [\<lparr>hb_height = 8, hb_hash = ''d''\<rparr>],
          hot_change_log = Some []\<rparr>,
       domain = [(0, 1), (1, 2)]\<rparr>)"
  by (simp add: reconcile_defs reorg_info_def record_slice_def record_view_def reorg_db_def
      reorg_view_db_def reorg_state_def hot_rows_def change_rows_def)

subsection \<open>The SQL text\<close>

lemmas sql_defs = connect_sql_def getState_sql_def updateStatus_sql_def select_status_sql_def
  select_hot_block_sql_def select_from_def sql_raw_def toQuery_def Let_def

text \<open>
  C10. For every \<open>stateSchema\<close> (by default \<open>squid_processor\<close>), the text of every statement
  of \<open>connect\<close>, \<open>getState\<close> and \<open>updateStatus\<close> holds the schema string as it is, between
  fixed pieces of text, and never as a bound parameter; the only parameters are the
  height, the hash and the nonce of \<open>updateStatus\<close>. So a schema string with SQL in it
  changes the statements: the last equation shows a \<open>CREATE SCHEMA\<close> whose text has a
  second statement.
\<close>

theorem schema_interpolated_raw:
  "map toQuery (connect_sql this) =
     [ (''CREATE SCHEMA IF NOT EXISTS '' @ statusSchema this, []),
       (''CREATE TABLE IF NOT EXISTS '' @ statusSchema this @
          ''.status ( id int4 primary key, height int4 not null, hash text DEFAULT '0x', nonce int4 DEFAULT 0 )'', []),
       (''CREATE TABLE IF NOT EXISTS '' @ statusSchema this @
          ''.hot_block (height int4 primary key, hash text not null)'', []),
       (''CREATE TABLE IF NOT EXISTS '' @ statusSchema this @
          ''.hot_change_log ( block_height int4 not null references '' @ statusSchema this @
          ''.hot_block on delete cascade, index int4 not null, change jsonb not null, PRIMARY KEY (block_height, index) )'', []),
       (''select height, hash, nonce from '' @ statusSchema this @ ''.status where id = 0'', []),
       (''INSERT INTO '' @ statusSchema this @ ''.status (id, height, hash) VALUES (0, -1, '0x')'', []),
       (''select height, hash from '' @ statusSchema this @ ''.hot_block order by height'', []) ] \<and>
   map toQuery (getState_sql this) =
     [ (''select height, hash, nonce from '' @ statusSchema this @ ''.status where id = 0'', []),
       (''select height, hash from '' @ statusSchema this @ ''.hot_block order by height'', []) ] \<and>
   toQuery (updateStatus_sql this n next) =
     (''UPDATE '' @ statusSchema this @
        ''.status SET height = $1, hash = $2, nonce = nonce + 1 WHERE id = 0 AND nonce = $3'',
      [SqlInt (height next), SqlText (hash next), SqlInt n]) \<and>
   statusSchema (new_DrizzleDatabase None) = ''squid_processor'' \<and>
   toQuery (hd (connect_sql
       (new_DrizzleDatabase (Some \<lparr>opt_isolationLevel = None,
          opt_stateSchema = Some ''x; DROP TABLE transfer; --''\<rparr>)))) =
     (''CREATE SCHEMA IF NOT EXISTS x; DROP TABLE transfer; --'', [])"
  by (simp add: sql_defs new_DrizzleDatabase_def)

end
